theory Spec2Isabelle
  imports Complex_Main
begin

section \<open>Python string operations used by the aligner\<close>

text \<open>
  Strings are byte lists. \<open>str.strip()\<close> removes leading and trailing whitespace; on the
  ASCII range Python's whitespace is TAB, LF, VT, FF, CR, FS, GS, RS, US and SPACE.
  Whitespace code points beyond ASCII are not modelled. Times and probabilities are
  Python floats compared with \<open>>=\<close>, \<open><=\<close> and \<open>>\<close>; they are modelled as reals
  (no NaN).
\<close>

definition isspace :: "char \<Rightarrow> bool" where
  "isspace c = (c \<in> set [CHR 0x09, CHR 0x0A, CHR 0x0B, CHR 0x0C, CHR 0x0D,
                          CHR 0x1C, CHR 0x1D, CHR 0x1E, CHR 0x1F, CHR 0x20])"

definition lstrip :: "string \<Rightarrow> string" where
  "lstrip s = dropWhile isspace s"

definition rstrip :: "string \<Rightarrow> string" where
  "rstrip s = rev (dropWhile isspace (rev s))"

definition strip :: "string \<Rightarrow> string" where
  "strip s = rstrip (lstrip s)"

fun join :: "string \<Rightarrow> string list \<Rightarrow> string" where
  "join sep [] = []"
| "join sep [x] = x"
| "join sep (x # y # ys) = x @ sep @ join sep (y # ys)"

definition endswith :: "string \<Rightarrow> string \<Rightarrow> bool" where
  "endswith s suffix =
     (length suffix \<le> length s \<and> drop (length s - length suffix) s = suffix)"

section \<open>Data: words, yielded tracks, output chunks\<close>

text \<open>
  An entry of \<open>all_whisper_words\<close> (lines 85-90): the dict with keys
  \<open>text\<close>, \<open>start\<close>, \<open>end\<close>, \<open>probability\<close>. Its text has been trimmed at line 86.
\<close>

record word =
  w_text :: string
  w_start :: real
  w_end :: real
  w_probability :: real

text \<open>The speech segment of a diarization track (\<open>speech_segment.start\<close>, \<open>.end\<close>).\<close>

record segment =
  seg_start :: real
  seg_end :: real

text \<open>
  A tuple that the iteration of line 114 receives.
  \<open>Tuple3\<close> is a segment, a track name and a label: what
  \<open>diarization_results.itertracks(yield_label=True)\<close> yields for each track of a
  pyannote annotation. \<open>Tuple2\<close> is a segment and a label: the shape that the two names
  of the loop header fit.
\<close>

datatype yielded_tuple =
  Tuple2 segment string
| Tuple3 segment string string

text \<open>
  An entry of \<open>word_chunks_for_frontend\<close> (lines 123-128 and 138-143): keys
  \<open>text\<close>, \<open>timestamp\<close> (the two-element list of start and end), \<open>score\<close>, \<open>speaker\<close>.
\<close>

record chunk =
  c_text :: string
  c_timestamp :: "real \<times> real"
  c_score :: real
  c_speaker :: "string option"

text \<open>The variables the diarization branch mutates (lines 94-95, 101-102).\<close>

record aligner_state =
  final_transcript_text :: string
  current_speaker :: "string option"
  current_speaker_words :: "word list"
  word_chunks_for_frontend :: "chunk list"

text \<open>The two fields of the JSON response that the aligner computes (lines 147-150).\<close>

record response =
  r_text :: string
  r_chunks :: "chunk list"

text \<open>
  The exception of a tuple assignment whose sides differ in length, and the answer that
  the handler of lines 153-155 makes of an exception: the JSON object with the
  exception's text under \<open>error\<close>, with status 500. The text itself is not modelled.
\<close>

datatype exception = ValueError

datatype failure = Status500 exception

section \<open>The code of \<open>transcribe_audio\<close>, lines 92-155\<close>

text \<open>Line 92.\<close>

definition full_text_from_whisper :: "word list \<Rightarrow> string" where
  "full_text_from_whisper all_whisper_words =
     strip (concat (map (\<lambda>w. w_text w @ '' '') all_whisper_words))"

text \<open>The f-string of line 111 formats \<open>current_speaker\<close>; \<open>None\<close> prints as its name.\<close>

fun format_speaker :: "string option \<Rightarrow> string" where
  "format_speaker None = ''None''"
| "format_speaker (Some l) = l"

text \<open>Lines 104-112: the closure, with the variables it reads and writes passed along.\<close>

definition add_speaker_segment :: "aligner_state \<Rightarrow> aligner_state" where
  "add_speaker_segment st =
     (if current_speaker_words st \<noteq> [] then
        (let segment_text = strip (join '' '' (map w_text (current_speaker_words st)));
             st1 =
               (if segment_text \<noteq> [] then
                  (let st0 =
                         (if final_transcript_text st \<noteq> []
                             \<and> \<not> endswith (final_transcript_text st) [CHR 0x0A]
                          then st\<lparr>final_transcript_text := final_transcript_text st @ [CHR 0x0A]\<rparr>
                          else st)
                   in st0\<lparr>final_transcript_text :=
                            final_transcript_text st0 @ format_speaker (current_speaker st0)
                              @ '': '' @ segment_text @ [CHR 0x0A]\<rparr>)
                else st)
         in st1\<lparr>current_speaker_words := []\<rparr>)
      else st)"

text \<open>Lines 123-128 and 138-143: the dict appended for a word.\<close>

definition make_chunk :: "string option \<Rightarrow> word \<Rightarrow> chunk" where
  "make_chunk speaker w =
     \<lparr>c_text = w_text w, c_timestamp = (w_start w, w_end w), c_score = w_probability w,
      c_speaker = speaker\<rparr>"

text \<open>Lines 120-130: the scan of all words for one speech segment.\<close>

fun scan_words :: "segment \<Rightarrow> string \<Rightarrow> word list \<Rightarrow> aligner_state \<Rightarrow> aligner_state" where
  "scan_words speech_segment speaker_label [] st = st"
| "scan_words speech_segment speaker_label (w # ws) st =
     scan_words speech_segment speaker_label ws
       (if w_start w \<ge> seg_start speech_segment \<and> w_end w \<le> seg_end speech_segment then
          st\<lparr>current_speaker_words := current_speaker_words st @ [w],
             word_chunks_for_frontend :=
               word_chunks_for_frontend st @ [make_chunk (Some speaker_label) w]\<rparr>
        else if w_start w > seg_end speech_segment then st
        else st)"

text \<open>Lines 115-130: the body of the loop over the diarization tracks.\<close>

definition process_track :: "word list \<Rightarrow> aligner_state \<Rightarrow> segment \<times> string \<Rightarrow> aligner_state" where
  "process_track all_whisper_words st track =
     (case track of (speech_segment, speaker_label) \<Rightarrow>
        (let st1 = (if current_speaker st \<noteq> None \<and> Some speaker_label \<noteq> current_speaker st
                    then add_speaker_segment st else st);
             st2 = st1\<lparr>current_speaker := Some speaker_label\<rparr>
         in scan_words speech_segment speaker_label all_whisper_words st2))"

text \<open>
  Line 114, the loop header: the tuple is assigned to the two names
  \<open>speech_segment, speaker_label\<close>. A tuple of three raises \<open>ValueError\<close>.
\<close>

fun unpack_two :: "yielded_tuple \<Rightarrow> exception + segment \<times> string" where
  "unpack_two (Tuple2 speech_segment speaker_label) = Inr (speech_segment, speaker_label)"
| "unpack_two (Tuple3 speech_segment track speaker_label) = Inl ValueError"

text \<open>
  Lines 114-130: the loop. An exception leaves the loop and the function; what the
  iterations before it did to the variables is lost with them.
\<close>

fun itertracks_loop ::
    "word list \<Rightarrow> yielded_tuple list \<Rightarrow> aligner_state \<Rightarrow> exception + aligner_state" where
  "itertracks_loop all_whisper_words [] st = Inr st"
| "itertracks_loop all_whisper_words (item # items) st =
     (case unpack_two item of
        Inl e \<Rightarrow> Inl e
      | Inr track \<Rightarrow>
          itertracks_loop all_whisper_words items (process_track all_whisper_words st track))"

text \<open>Lines 94-95 and 101-102.\<close>

definition initial_state :: aligner_state where
  "initial_state =
     \<lparr>final_transcript_text = [], current_speaker = None, current_speaker_words = [],
      word_chunks_for_frontend = []\<rparr>"

text \<open>Lines 101-132: the diarization branch, up to the last flush.\<close>

definition diarize_words :: "word list \<Rightarrow> yielded_tuple list \<Rightarrow> exception + aligner_state" where
  "diarize_words all_whisper_words diarization_results =
     (case itertracks_loop all_whisper_words diarization_results initial_state of
        Inl e \<Rightarrow> Inl e
      | Inr st \<Rightarrow> Inr (add_speaker_segment st))"

text \<open>
  Lines 92-155. The request parsing and the two model calls before are the collaborators:
  \<open>diarize\<close> is the request's flag, \<open>diarization_pipeline\<close> is \<open>None\<close> when the module's
  pipeline handle is unset and otherwise holds the tuples that
  \<open>diarization_results.itertracks(yield_label=True)\<close> yields for the uploaded audio, and
  \<open>all_whisper_words\<close> is the list built at lines 82-90. The result is the response of
  line 147, or the answer of line 155 when the branch raised.
\<close>

definition transcribe_audio ::
    "bool \<Rightarrow> yielded_tuple list option \<Rightarrow> word list \<Rightarrow> failure + response" where
  "transcribe_audio diarize diarization_pipeline all_whisper_words =
     (case (if diarize then diarization_pipeline else None) of
        Some diarization_results \<Rightarrow>
          (case diarize_words all_whisper_words diarization_results of
             Inl e \<Rightarrow> Inl (Status500 e)
           | Inr st \<Rightarrow>
               Inr \<lparr>r_text = strip (final_transcript_text st),
                    r_chunks = word_chunks_for_frontend st\<rparr>)
      | None \<Rightarrow>
          Inr \<lparr>r_text = strip (full_text_from_whisper all_whisper_words),
               r_chunks = map (make_chunk None) all_whisper_words\<rparr>)"

section \<open>Notions used to state the properties\<close>

text \<open>The test of line 121: the word lies fully inside the speech segment.\<close>

definition contained :: "segment \<Rightarrow> word \<Rightarrow> bool" where
  "contained speech_segment w =
     (w_start w \<ge> seg_start speech_segment \<and> w_end w \<le> seg_end speech_segment)"

text \<open>The word whose text, times and probability a chunk carries.\<close>

definition chunk_word :: "chunk \<Rightarrow> word" where
  "chunk_word c =
     \<lparr>w_text = c_text c, w_start = fst (c_timestamp c), w_end = snd (c_timestamp c),
      w_probability = c_score c\<rparr>"

text \<open>The segment and the label of a yielded tuple.\<close>

fun yielded_segment :: "yielded_tuple \<Rightarrow> segment" where
  "yielded_segment (Tuple2 speech_segment speaker_label) = speech_segment"
| "yielded_segment (Tuple3 speech_segment track speaker_label) = speech_segment"

fun yielded_label :: "yielded_tuple \<Rightarrow> string" where
  "yielded_label (Tuple2 speech_segment speaker_label) = speaker_label"
| "yielded_label (Tuple3 speech_segment track speaker_label) = speaker_label"

text \<open>
  The text that \<open>add_speaker_segment\<close> appends for a speaker and a buffer of words
  (lines 107-111): nothing when the joined, trimmed text is empty.
\<close>

definition segment_line :: "string \<Rightarrow> word list \<Rightarrow> string" where
  "segment_line speaker ws =
     (let segment_text = strip (join '' '' (map w_text ws))
      in if segment_text \<noteq> [] then speaker @ '': '' @ segment_text @ [CHR 0x0A] else [])"



text \<open>
  The words of the scenarios of the specification, a word with empty text, a word that
  overlaps both tracks of the second scenario and lies in neither, and a third word.
\<close>

definition word_a :: word where
  "word_a = \<lparr>w_text = ''a'', w_start = 0.0, w_end = 0.5, w_probability = 0.9\<rparr>"

definition word_b :: word where
  "word_b = \<lparr>w_text = ''b'', w_start = 0.6, w_end = 1.0, w_probability = 0.8\<rparr>"

definition word_c :: word where
  "word_c = \<lparr>w_text = ''c'', w_start = 1.1, w_end = 1.5, w_probability = 0.6\<rparr>"

definition word_hello :: word where
  "word_hello = \<lparr>w_text = ''hello'', w_start = 0, w_end = 0.3, w_probability = 0.99\<rparr>"

definition word_world :: word where
  "word_world = \<lparr>w_text = ''world'', w_start = 0.3, w_end = 0.6, w_probability = 0.95\<rparr>"

definition word_blank :: word where
  "word_blank = \<lparr>w_text = [], w_start = 0.0, w_end = 0.5, w_probability = 0.5\<rparr>"

definition word_x :: word where
  "word_x = \<lparr>w_text = ''x'', w_start = 0.4, w_end = 0.7, w_probability = 0.7\<rparr>"

text \<open>
  What \<open>itertracks(yield_label=True)\<close> yields for the speaker timelines of the scenarios
  of the specification, for two tracks over the same interval, and for a speaker whom
  another one interrupts. The track names are those of the annotation.
\<close>

definition one_speaker :: "yielded_tuple list" where
  "one_speaker = [Tuple3 \<lparr>seg_start = 0.0, seg_end = 1.0\<rparr> ''A'' ''SPEAKER_00'']"

definition two_speakers :: "yielded_tuple list" where
  "two_speakers =
     [Tuple3 \<lparr>seg_start = 0.0, seg_end = 0.5\<rparr> ''A'' ''SPEAKER_00'',
      Tuple3 \<lparr>seg_start = 0.6, seg_end = 1.0\<rparr> ''B'' ''SPEAKER_01'']"

definition overlapping_speakers :: "yielded_tuple list" where
  "overlapping_speakers =
     [Tuple3 \<lparr>seg_start = 0.0, seg_end = 1.0\<rparr> ''A'' ''SPEAKER_00'',
      Tuple3 \<lparr>seg_start = 0.0, seg_end = 1.0\<rparr> ''B'' ''SPEAKER_01'']"

definition interrupted_speaker :: "yielded_tuple list" where
  "interrupted_speaker =
     [Tuple3 \<lparr>seg_start = 0.0, seg_end = 0.5\<rparr> ''A'' ''SPEAKER_00'',
      Tuple3 \<lparr>seg_start = 0.6, seg_end = 1.0\<rparr> ''B'' ''SPEAKER_01'',
      Tuple3 \<lparr>seg_start = 1.1, seg_end = 1.5\<rparr> ''C'' ''SPEAKER_00'']"

text \<open>
  The two tracks of the second scenario as tuples of two, and a state whose buffer holds
  only the word with empty text.
\<close>

definition two_speakers_as_pairs :: "yielded_tuple list" where
  "two_speakers_as_pairs =
     [Tuple2 \<lparr>seg_start = 0.0, seg_end = 0.5\<rparr> ''SPEAKER_00'',
      Tuple2 \<lparr>seg_start = 0.6, seg_end = 1.0\<rparr> ''SPEAKER_01'']"


section \<open>Facts about the string operations\<close>

lemma strip_Nil: "strip [] = []"
  by (simp add: strip_def lstrip_def rstrip_def)

lemma rstrip_snoc_space: "isspace c \<Longrightarrow> rstrip (s @ [c]) = rstrip s"
  by (simp add: rstrip_def)

lemma lstrip_snoc_space:
  "isspace c \<Longrightarrow> lstrip (s @ [c]) = (if \<forall>x\<in>set s. isspace x then [] else lstrip s @ [c])"
  by (simp add: lstrip_def dropWhile_append)

lemma lstrip_all_space: "\<forall>x\<in>set s. isspace x \<Longrightarrow> lstrip s = []"
  by (simp add: lstrip_def)

lemma strip_snoc_space: "isspace c \<Longrightarrow> strip (s @ [c]) = strip s"
  by (simp add: strip_def lstrip_snoc_space rstrip_snoc_space lstrip_all_space rstrip_def)

lemma lstrip_idem: "lstrip (lstrip s) = lstrip s"
  by (simp add: lstrip_def dropWhile_idem)

lemma lstrip_rstrip: "lstrip (rstrip (lstrip s)) = rstrip (lstrip s)"
proof (cases "lstrip s")
  case Nil
  have "lstrip [] = []" "rstrip [] = []" by (simp_all add: lstrip_def rstrip_def)
  with Nil show ?thesis by simp
next
  case (Cons x xs)
  then have nx: "\<not> isspace x" using hd_dropWhile[of isspace s] by (simp add: lstrip_def)
  have "rstrip (x # xs) \<noteq> []"
    using nx by (simp add: rstrip_def dropWhile_append dropWhile_eq_Nil_conv)
  moreover have "\<exists>zs. x # xs = rstrip (x # xs) @ zs"
    unfolding rstrip_def
    by (metis rev_append rev_rev_ident takeWhile_dropWhile_id)
  ultimately have "hd (rstrip (x # xs)) = x"
    by (metis hd_append2 list.sel(1))
  with \<open>rstrip (x # xs) \<noteq> []\<close> nx Cons show ?thesis
    by (cases "rstrip (x # xs)") (simp_all add: lstrip_def)
qed

lemma rstrip_idem: "rstrip (rstrip s) = rstrip s"
  by (simp add: rstrip_def dropWhile_idem)

lemma strip_idem: "strip (strip s) = strip s"
  by (simp add: strip_def lstrip_rstrip rstrip_idem)

lemma concat_texts:
  "concat (map (\<lambda>w. w_text w @ '' '') ws) =
     (if ws = [] then [] else join '' '' (map w_text ws) @ '' '')"
  by (induction ws rule: induct_list012) auto


section \<open>Facts about the loop\<close>

lemma scan_words_eq:
  "scan_words seg l ws st =
     st\<lparr>current_speaker_words := current_speaker_words st @ filter (contained seg) ws,
        word_chunks_for_frontend :=
          word_chunks_for_frontend st @ map (make_chunk (Some l)) (filter (contained seg) ws)\<rparr>"
  by (induction ws arbitrary: st) (auto simp: contained_def)

lemma chunk_word_make_chunk: "chunk_word (make_chunk sp w) = w"
  by (simp add: chunk_word_def make_chunk_def)

lemma add_speaker_segment_chunks:
  "word_chunks_for_frontend (add_speaker_segment st) = word_chunks_for_frontend st"
  by (simp add: add_speaker_segment_def Let_def)



lemma full_text_eq: "full_text_from_whisper ws = strip (join '' '' (map w_text ws))"
proof (cases "ws = []")
  case True
  then show ?thesis by (simp add: full_text_from_whisper_def)
next
  case False
  have "isspace CHR '' ''" by (simp add: isspace_def)
  then have "strip (join '' '' (map w_text ws) @ '' '') = strip (join '' '' (map w_text ws))"
    by (rule strip_snoc_space)
  with False show ?thesis by (simp add: full_text_from_whisper_def concat_texts)
qed


lemma segment_line_Nil: "segment_line l [] = []"
  by (simp add: segment_line_def strip_Nil)




text \<open>What holds of the state at each iteration holds of the state the loop returns.\<close>

lemma itertracks_loop_invariant:
  assumes "itertracks_loop ws items st = Inr st'"
    and "P st"
    and "\<And>st seg l. P st \<Longrightarrow> Tuple2 seg l \<in> set items \<Longrightarrow> P (process_track ws st (seg, l))"
  shows "P st'"
  using assms
proof (induction items arbitrary: st)
  case Nil
  then show ?case by simp
next
  case (Cons item items)
  show ?case
  proof (cases item)
    case (Tuple2 seg l)
    with Cons.prems(1) have run: "itertracks_loop ws items (process_track ws st (seg, l)) = Inr st'"
      by simp
    from Cons.prems(2,3) Tuple2 have "P (process_track ws st (seg, l))" by simp
    from Cons.IH[OF run this] Cons.prems(3) show ?thesis by simp
  next
    case (Tuple3 seg t l)
    with Cons.prems(1) show ?thesis by simp
  qed
qed

text \<open>A tuple of three anywhere among the yielded ones makes the loop raise.\<close>

lemma itertracks_loop_raises:
  "Tuple3 seg t l \<in> set items \<Longrightarrow> itertracks_loop ws items st = Inl ValueError"
proof (induction items arbitrary: st)
  case Nil
  then show ?case by simp
next
  case (Cons item items)
  then show ?case by (cases item) auto
qed

lemma transcribe_audio_raises:
  "Tuple3 seg t l \<in> set items \<Longrightarrow>
     transcribe_audio True (Some items) ws = Inl (Status500 ValueError)"
  by (simp add: transcribe_audio_def diarize_words_def itertracks_loop_raises)

lemma process_track_chunks_from:
  assumes "c \<in> set (word_chunks_for_frontend (process_track ws st (seg, l)))"
  shows "c \<in> set (word_chunks_for_frontend st)
         \<or> (\<exists>w\<in>set ws. contained seg w \<and> c = make_chunk (Some l) w)"
  using assms
  by (auto simp: process_track_def scan_words_eq add_speaker_segment_chunks Let_def
      split: if_splits)

lemma itertracks_loop_chunks_from:
  assumes "itertracks_loop ws items st = Inr st'"
    and "c \<in> set (word_chunks_for_frontend st')"
  shows "c \<in> set (word_chunks_for_frontend st)
         \<or> (\<exists>seg l. Tuple2 seg l \<in> set items
               \<and> (\<exists>w\<in>set ws. contained seg w \<and> c = make_chunk (Some l) w))"
proof -
  let ?P = "\<lambda>s. \<forall>c\<in>set (word_chunks_for_frontend s).
      c \<in> set (word_chunks_for_frontend st)
      \<or> (\<exists>seg l. Tuple2 seg l \<in> set items
            \<and> (\<exists>w\<in>set ws. contained seg w \<and> c = make_chunk (Some l) w))"
  have "?P st'"
  proof (rule itertracks_loop_invariant[OF assms(1), of ?P])
    show "?P st" by simp
  next
    fix s :: aligner_state and seg l
    assume p: "?P s" and t: "Tuple2 seg l \<in> set items"
    show "?P (process_track ws s (seg, l))"
    proof
      fix c
      assume "c \<in> set (word_chunks_for_frontend (process_track ws s (seg, l)))"
      from process_track_chunks_from[OF this] p t
      show "c \<in> set (word_chunks_for_frontend st)
         \<or> (\<exists>seg l. Tuple2 seg l \<in> set items
               \<and> (\<exists>w\<in>set ws. contained seg w \<and> c = make_chunk (Some l) w))"
        by blast
    qed
  qed
  with assms(2) show ?thesis by blast
qed

lemma diarized_chunks_from:
  assumes "transcribe_audio True (Some items) ws = Inr r" and "c \<in> set (r_chunks r)"
  shows "\<exists>seg l. Tuple2 seg l \<in> set items
           \<and> (\<exists>w\<in>set ws. contained seg w \<and> c = make_chunk (Some l) w)"
proof -
  from assms(1) obtain st where
    run: "itertracks_loop ws items initial_state = Inr st"
    and r: "r = \<lparr>r_text = strip (final_transcript_text (add_speaker_segment st)),
                 r_chunks = word_chunks_for_frontend (add_speaker_segment st)\<rparr>"
    by (auto simp: transcribe_audio_def diarize_words_def split: sum.splits)
  from r assms(2) have "c \<in> set (word_chunks_for_frontend st)"
    by (simp add: add_speaker_segment_chunks)
  from itertracks_loop_chunks_from[OF run this] show ?thesis
    by (simp add: initial_state_def)
qed








lemma process_track_cong:
  "filter (contained seg) ws = filter (contained seg) ws' \<Longrightarrow>
     process_track ws st (seg, l) = process_track ws' st (seg, l)"
  by (simp add: process_track_def scan_words_eq Let_def)


lemma itertracks_loop_cong:
  "\<forall>item\<in>set items. filter (contained (yielded_segment item)) ws
                        = filter (contained (yielded_segment item)) ws' \<Longrightarrow>
     itertracks_loop ws items st = itertracks_loop ws' items st"
proof (induction items arbitrary: st)
  case Nil
  show ?case by simp
next
  case (Cons item items)
  from Cons.prems have rest: "\<forall>item\<in>set items.
      filter (contained (yielded_segment item)) ws = filter (contained (yielded_segment item)) ws'"
    by simp
  show ?case
  proof (cases item)
    case (Tuple2 seg l)
    with Cons.prems have "filter (contained seg) ws = filter (contained seg) ws'" by simp
    then have "process_track ws st (seg, l) = process_track ws' st (seg, l)"
      by (rule process_track_cong)
    with Cons.IH[OF rest] Tuple2 show ?thesis by simp
  next
    case (Tuple3 seg t l)
    then show ?thesis by simp
  qed
qed



text \<open>The definitions that evaluate the code on a concrete input.\<close>

lemmas eval_defs = transcribe_audio_def diarize_words_def process_track_def initial_state_def
  add_speaker_segment_def strip_def lstrip_def rstrip_def isspace_def endswith_def make_chunk_def
  Let_def contained_def chunk_word_def

lemmas input_defs = one_speaker_def two_speakers_def overlapping_speakers_def
  interrupted_speaker_def two_speakers_as_pairs_def word_a_def word_b_def word_c_def
  word_blank_def word_x_def word_hello_def word_world_def

section \<open>The properties\<close>

text \<open>
  C8: with diarization on and no track at all, the returned transcript is the empty string
  and the per-word list is empty, whatever the words are.
\<close>

theorem empty_timeline_gives_empty_output:
  "transcribe_audio True (Some []) all_whisper_words = Inr \<lparr>r_text = [], r_chunks = []\<rparr>"
  by (simp add: transcribe_audio_def diarize_words_def initial_state_def
      add_speaker_segment_def strip_Nil)

text \<open>
  C5: when the diarization branch is not taken (the flag is off, or no pipeline is
  loaded), a response is returned, its transcript is the word texts joined by single
  spaces and trimmed, in their order, and its per-word list has one entry for each word,
  each with no speaker.
\<close>

theorem no_diarization_output:
  "\<not> (diarize \<and> diarization_pipeline \<noteq> None) \<Longrightarrow>
     \<exists>r. transcribe_audio diarize diarization_pipeline all_whisper_words = Inr r
       \<and> r_text r = strip (join '' '' (map w_text all_whisper_words))
       \<and> r_chunks r = map (make_chunk None) all_whisper_words
       \<and> (\<forall>c\<in>set (r_chunks r). c_speaker c = None)"
  by (auto simp: transcribe_audio_def full_text_eq strip_idem make_chunk_def)

theorem no_diarization_output_witness:
  "\<not> (False \<and> (None :: yielded_tuple list option) \<noteq> None)
   \<and> transcribe_audio False None [word_hello, word_world] =
       Inr \<lparr>r_text = ''hello world'',
            r_chunks = [make_chunk None word_hello, make_chunk None word_world]\<rparr>
   \<and> map c_speaker [make_chunk None word_hello, make_chunk None word_world] = [None, None]"
proof -
  have h: "\<not> (False \<and> (None :: yielded_tuple list option) \<noteq> None)" by simp
  from no_diarization_output[OF h, of "[word_hello, word_world]"] obtain r where
    r: "transcribe_audio False None [word_hello, word_world] = Inr r"
      "r_text r = strip (join '' '' (map w_text [word_hello, word_world]))"
      "r_chunks r = map (make_chunk None) [word_hello, word_world]"
      "\<forall>c\<in>set (r_chunks r). c_speaker c = None"
    by blast
  have t: "strip (join '' '' (map w_text [word_hello, word_world])) = ''hello world''"
    by (simp add: word_hello_def word_world_def strip_def lstrip_def rstrip_def isspace_def)
  from r(2,3) t have "r = \<lparr>r_text = ''hello world'',
      r_chunks = [make_chunk None word_hello, make_chunk None word_world]\<rparr>"
    by simp
  with r(1) have a: "transcribe_audio False None [word_hello, word_world] =
       Inr \<lparr>r_text = ''hello world'',
            r_chunks = [make_chunk None word_hello, make_chunk None word_world]\<rparr>"
    by simp
  from r(3,4) have b: "map c_speaker [make_chunk None word_hello, make_chunk None word_world]
      = [None, None]"
    by simp
  show ?thesis by (intro conjI) (fact h a b)+
qed

text \<open>
  C6: in both modes every entry of the per-word list of a response carries the text, the
  start and end times and the probability of one of the given words, unchanged.
\<close>

theorem chunk_fields_verbatim:
  "transcribe_audio diarize diarization_pipeline all_whisper_words = Inr r \<Longrightarrow>
     \<forall>c\<in>set (r_chunks r).
       \<exists>w\<in>set all_whisper_words.
         c_text c = w_text w \<and> c_timestamp c = (w_start w, w_end w)
         \<and> c_score c = w_probability w"
proof (cases "diarize \<and> diarization_pipeline \<noteq> None")
  case True
  assume run: "transcribe_audio diarize diarization_pipeline all_whisper_words = Inr r"
  from True obtain items where p: "diarize" "diarization_pipeline = Some items" by auto
  with run have run': "transcribe_audio True (Some items) all_whisper_words = Inr r" by simp
  show ?thesis
  proof
    fix c
    assume "c \<in> set (r_chunks r)"
    from diarized_chunks_from[OF run' this]
    show "\<exists>w\<in>set all_whisper_words.
         c_text c = w_text w \<and> c_timestamp c = (w_start w, w_end w)
         \<and> c_score c = w_probability w"
      by (auto simp: make_chunk_def)
  qed
next
  case False
  assume "transcribe_audio diarize diarization_pipeline all_whisper_words = Inr r"
  with False have r: "r_chunks r = map (make_chunk None) all_whisper_words"
    by (auto simp: transcribe_audio_def)
  show ?thesis
  proof
    fix c
    assume "c \<in> set (r_chunks r)"
    with r obtain w where w: "w \<in> set all_whisper_words" "c = make_chunk None w" by auto
    from w(2) have "c_text c = w_text w \<and> c_timestamp c = (w_start w, w_end w)
         \<and> c_score c = w_probability w"
      by (simp add: make_chunk_def)
    with w(1) show "\<exists>w\<in>set all_whisper_words.
         c_text c = w_text w \<and> c_timestamp c = (w_start w, w_end w)
         \<and> c_score c = w_probability w" ..
  qed
qed

theorem chunk_fields_verbatim_witness:
  "transcribe_audio False None [word_hello, word_world] =
     Inr \<lparr>r_text = ''hello world'',
          r_chunks = [make_chunk None word_hello, make_chunk None word_world]\<rparr>
   \<and> (\<exists>w\<in>set [word_hello, word_world].
        c_text (make_chunk None word_hello) = w_text w
        \<and> c_timestamp (make_chunk None word_hello) = (w_start w, w_end w)
        \<and> c_score (make_chunk None word_hello) = w_probability w)
   \<and> transcribe_audio True (Some two_speakers_as_pairs) [word_a, word_b] =
       Inr \<lparr>r_text = ''SPEAKER_00: a\<newline>SPEAKER_01: b'',
            r_chunks = [make_chunk (Some ''SPEAKER_00'') word_a,
                        make_chunk (Some ''SPEAKER_01'') word_b]\<rparr>
   \<and> (\<exists>w\<in>set [word_a, word_b].
        c_text (make_chunk (Some ''SPEAKER_01'') word_b) = w_text w
        \<and> c_timestamp (make_chunk (Some ''SPEAKER_01'') word_b) = (w_start w, w_end w)
        \<and> c_score (make_chunk (Some ''SPEAKER_01'') word_b) = w_probability w)"
proof -
  have a: "transcribe_audio False None [word_hello, word_world] =
     Inr \<lparr>r_text = ''hello world'',
          r_chunks = [make_chunk None word_hello, make_chunk None word_world]\<rparr>"
    by (simp add: eval_defs input_defs full_text_from_whisper_def)
  have b: "transcribe_audio True (Some two_speakers_as_pairs) [word_a, word_b] =
       Inr \<lparr>r_text = ''SPEAKER_00: a\<newline>SPEAKER_01: b'',
            r_chunks = [make_chunk (Some ''SPEAKER_00'') word_a,
                        make_chunk (Some ''SPEAKER_01'') word_b]\<rparr>"
    by (simp add: eval_defs input_defs)
  from chunk_fields_verbatim[OF a]
  have c: "\<exists>w\<in>set [word_hello, word_world].
        c_text (make_chunk None word_hello) = w_text w
        \<and> c_timestamp (make_chunk None word_hello) = (w_start w, w_end w)
        \<and> c_score (make_chunk None word_hello) = w_probability w"
    by simp
  from chunk_fields_verbatim[OF b]
  have d: "\<exists>w\<in>set [word_a, word_b].
        c_text (make_chunk (Some ''SPEAKER_01'') word_b) = w_text w
        \<and> c_timestamp (make_chunk (Some ''SPEAKER_01'') word_b) = (w_start w, w_end w)
        \<and> c_score (make_chunk (Some ''SPEAKER_01'') word_b) = w_probability w"
    by simp
  show ?thesis by (intro conjI) (fact a b c d)+
qed

text \<open>
  C4: with diarization on, a word that no yielded segment contains is omitted: the request
  is answered as it is for the words without it, and no entry of the per-word list of a
  response carries it. A word that overlaps two segments and lies fully in neither is
  such a word.
\<close>

theorem uncontained_word_omitted:
  assumes "\<forall>item\<in>set items. \<not> contained (yielded_segment item) w"
  shows "transcribe_audio True (Some items) (ws1 @ w # ws2) =
           transcribe_audio True (Some items) (ws1 @ ws2)
         \<and> (\<forall>r. transcribe_audio True (Some items) (ws1 @ w # ws2) = Inr r \<longrightarrow>
               w \<notin> chunk_word ` set (r_chunks r))"
proof (intro conjI allI impI)
  from assms have "\<forall>item\<in>set items.
      filter (contained (yielded_segment item)) (ws1 @ w # ws2)
        = filter (contained (yielded_segment item)) (ws1 @ ws2)"
    by auto
  then have "itertracks_loop (ws1 @ w # ws2) items initial_state =
      itertracks_loop (ws1 @ ws2) items initial_state"
    by (rule itertracks_loop_cong)
  then show "transcribe_audio True (Some items) (ws1 @ w # ws2) =
           transcribe_audio True (Some items) (ws1 @ ws2)"
    by (simp add: transcribe_audio_def diarize_words_def)
next
  fix r
  assume run: "transcribe_audio True (Some items) (ws1 @ w # ws2) = Inr r"
  show "w \<notin> chunk_word ` set (r_chunks r)"
  proof
    assume "w \<in> chunk_word ` set (r_chunks r)"
    then obtain c where c: "c \<in> set (r_chunks r)" "w = chunk_word c" by blast
    from diarized_chunks_from[OF run c(1)] obtain seg l w' where
      s: "Tuple2 seg l \<in> set items" "contained seg w'" "c = make_chunk (Some l) w'"
      by blast
    from c(2) s(3) have "w' = w" by (simp add: chunk_word_make_chunk)
    with s(1,2) assms show False by force
  qed
qed

theorem uncontained_word_omitted_witness:
  "\<not> contained \<lparr>seg_start = 0.0, seg_end = 0.5\<rparr> word_x
   \<and> \<not> contained \<lparr>seg_start = 0.6, seg_end = 1.0\<rparr> word_x
   \<and> map yielded_segment two_speakers_as_pairs =
       [\<lparr>seg_start = 0.0, seg_end = 0.5\<rparr>, \<lparr>seg_start = 0.6, seg_end = 1.0\<rparr>]
   \<and> w_start word_x < 0.5 \<and> 0.6 < w_end word_x
   \<and> transcribe_audio True (Some two_speakers_as_pairs) ([word_a] @ word_x # [word_b]) =
       transcribe_audio True (Some two_speakers_as_pairs) ([word_a] @ [word_b])
   \<and> transcribe_audio True (Some two_speakers_as_pairs) ([word_a] @ word_x # [word_b]) =
       Inr \<lparr>r_text = ''SPEAKER_00: a\<newline>SPEAKER_01: b'',
            r_chunks = [make_chunk (Some ''SPEAKER_00'') word_a,
                        make_chunk (Some ''SPEAKER_01'') word_b]\<rparr>
   \<and> word_x \<notin> chunk_word ` set [make_chunk (Some ''SPEAKER_00'') word_a,
                                   make_chunk (Some ''SPEAKER_01'') word_b]
   \<and> map yielded_segment two_speakers = map yielded_segment two_speakers_as_pairs
   \<and> transcribe_audio True (Some two_speakers) ([word_a] @ word_x # [word_b]) =
       transcribe_audio True (Some two_speakers) ([word_a] @ [word_b])"
proof -
  have h0: "\<not> contained \<lparr>seg_start = 0.0, seg_end = 0.5\<rparr> word_x"
    "\<not> contained \<lparr>seg_start = 0.6, seg_end = 1.0\<rparr> word_x"
    "map yielded_segment two_speakers_as_pairs =
       [\<lparr>seg_start = 0.0, seg_end = 0.5\<rparr>, \<lparr>seg_start = 0.6, seg_end = 1.0\<rparr>]"
    "w_start word_x < 0.5" "0.6 < w_end word_x"
    by (simp_all add: contained_def word_x_def two_speakers_as_pairs_def)
  have h: "\<forall>item\<in>set two_speakers_as_pairs. \<not> contained (yielded_segment item) word_x"
    by (simp add: contained_def word_x_def two_speakers_as_pairs_def)
  have e: "transcribe_audio True (Some two_speakers_as_pairs) ([word_a] @ [word_b]) =
       Inr \<lparr>r_text = ''SPEAKER_00: a\<newline>SPEAKER_01: b'',
            r_chunks = [make_chunk (Some ''SPEAKER_00'') word_a,
                        make_chunk (Some ''SPEAKER_01'') word_b]\<rparr>"
    by (simp add: eval_defs input_defs)
  note th = uncontained_word_omitted[OF h, of "[word_a]" "[word_b]"]
  from th have a: "transcribe_audio True (Some two_speakers_as_pairs) ([word_a] @ word_x # [word_b]) =
       transcribe_audio True (Some two_speakers_as_pairs) ([word_a] @ [word_b])"
    by (rule conjunct1)
  from a e have r: "transcribe_audio True (Some two_speakers_as_pairs) ([word_a] @ word_x # [word_b]) =
       Inr \<lparr>r_text = ''SPEAKER_00: a\<newline>SPEAKER_01: b'',
            r_chunks = [make_chunk (Some ''SPEAKER_00'') word_a,
                        make_chunk (Some ''SPEAKER_01'') word_b]\<rparr>"
    by (rule trans)
  from th[THEN conjunct2, rule_format, OF r]
  have b: "word_x \<notin> chunk_word ` set [make_chunk (Some ''SPEAKER_00'') word_a,
                                   make_chunk (Some ''SPEAKER_01'') word_b]"
    by simp
  have s: "map yielded_segment two_speakers = map yielded_segment two_speakers_as_pairs"
    by (simp add: two_speakers_def two_speakers_as_pairs_def)
  have h': "\<forall>item\<in>set two_speakers. \<not> contained (yielded_segment item) word_x"
    by (simp add: contained_def word_x_def two_speakers_def)
  from uncontained_word_omitted[OF h', of "[word_a]" "[word_b]"]
  have t: "transcribe_audio True (Some two_speakers) ([word_a] @ word_x # [word_b]) =
       transcribe_audio True (Some two_speakers) ([word_a] @ [word_b])"
    by (rule conjunct1)
  show ?thesis by (intro conjI) (fact h0 a r b s t)+
qed



text \<open>
  C1: the loop body selects a word for a segment, appending it to the speaker's buffer
  and, tagged with the label, to the per-word list, exactly when its start is at least
  the segment's start and its end at most the segment's end. The body is not reached: for
  the tracks of the second scenario, where the word \<open>b\<close> lies inside the segment of
  \<open>SPEAKER_01\<close> only, the loop header raises on the first yielded tuple and the request
  is answered with status 500, so no word is tagged.
\<close>

theorem contained_word_selected_but_unpack_raises:
  "scan_words speech_segment speaker_label all_whisper_words st =
     st\<lparr>current_speaker_words := current_speaker_words st
           @ filter (\<lambda>w. w_start w \<ge> seg_start speech_segment \<and> w_end w \<le> seg_end speech_segment)
               all_whisper_words,
        word_chunks_for_frontend := word_chunks_for_frontend st
           @ map (make_chunk (Some speaker_label))
               (filter (\<lambda>w. w_start w \<ge> seg_start speech_segment \<and> w_end w \<le> seg_end speech_segment)
                  all_whisper_words)\<rparr>
   \<and> contained (yielded_segment (two_speakers ! 1)) word_b
   \<and> \<not> contained (yielded_segment (two_speakers ! 0)) word_b
   \<and> transcribe_audio True (Some two_speakers) [word_a, word_b] = Inl (Status500 ValueError)"
proof (intro conjI)
  show "scan_words speech_segment speaker_label all_whisper_words st =
     st\<lparr>current_speaker_words := current_speaker_words st
           @ filter (\<lambda>w. w_start w \<ge> seg_start speech_segment \<and> w_end w \<le> seg_end speech_segment)
               all_whisper_words,
        word_chunks_for_frontend := word_chunks_for_frontend st
           @ map (make_chunk (Some speaker_label))
               (filter (\<lambda>w. w_start w \<ge> seg_start speech_segment \<and> w_end w \<le> seg_end speech_segment)
                  all_whisper_words)\<rparr>"
    using scan_words_eq[of speech_segment speaker_label all_whisper_words st]
    by (simp add: contained_def[abs_def])
next
  show "contained (yielded_segment (two_speakers ! 1)) word_b"
    by (simp add: contained_def two_speakers_def word_b_def)
next
  show "\<not> contained (yielded_segment (two_speakers ! 0)) word_b"
    by (simp add: contained_def two_speakers_def word_b_def)
next
  show "transcribe_audio True (Some two_speakers) [word_a, word_b] = Inl (Status500 ValueError)"
    by (simp add: two_speakers_def transcribe_audio_def diarize_words_def)
qed


text \<open>
  C3: for the two scenarios of the specification the loop header raises on the first
  yielded tuple and the request is answered with status 500; no transcript is returned.
\<close>

theorem scenarios_unpack_raises:
  "transcribe_audio True (Some one_speaker) [word_a, word_b] = Inl (Status500 ValueError)
   \<and> transcribe_audio True (Some two_speakers) [word_a, word_b] = Inl (Status500 ValueError)"
  by (simp add: one_speaker_def two_speakers_def transcribe_audio_def diarize_words_def)

text \<open>
  C7: for a speaker whom another one interrupts, each of the three tracks containing one
  word with a text, the loop header raises on the first yielded tuple and the request is
  answered with status 500; no transcript is returned.
\<close>

theorem interrupted_speaker_unpack_raises:
  "map yielded_label interrupted_speaker = [''SPEAKER_00'', ''SPEAKER_01'', ''SPEAKER_00'']
   \<and> filter (contained (yielded_segment (interrupted_speaker ! 0))) [word_a, word_b, word_c]
       = [word_a]
   \<and> filter (contained (yielded_segment (interrupted_speaker ! 1))) [word_a, word_b, word_c]
       = [word_b]
   \<and> filter (contained (yielded_segment (interrupted_speaker ! 2))) [word_a, word_b, word_c]
       = [word_c]
   \<and> transcribe_audio True (Some interrupted_speaker) [word_a, word_b, word_c] =
       Inl (Status500 ValueError)"
  by (simp add: interrupted_speaker_def transcribe_audio_def diarize_words_def contained_def
      word_a_def word_b_def word_c_def)

end
